theory Spec2Isabelle
  imports Main
begin

section \<open>The content item store of \<open>src/backend/main.py\<close>\<close>

text \<open>
  The handlers of \<open>main.py\<close> work on two pieces of persistent state: the table
  \<open>content_items\<close> of the SQLite database and the directory \<open>uploads\<close>. Both are
  fields of the record \<open>state\<close>; every handler takes the state and returns its response
  together with the state it leaves behind, also when it raises.

  What the handlers read from their environment is an argument of the model:
  \<^item> \<open>fromisoformat\<close>, the parser \<open>datetime.fromisoformat\<close> of the Python library
    (\<open>None\<close> where Python raises \<open>ValueError\<close>);
  \<^item> \<open>uuid4\<close>, the text of the identifier that \<open>uuid.uuid4()\<close> draws;
  \<^item> \<open>utcnow\<close>, a reading of \<open>datetime.utcnow()\<close>.
\<close>

subsection \<open>Data model\<close>

text \<open>A naive UTC timestamp, as microseconds on the time line.\<close>

type_synonym datetime = int

text \<open>
  The class \<open>ContentItem\<close> (lines 26-40), one row of the table. The column \<open>id\<close> is
  the field \<open>item_id\<close>, the name the handlers use for it.
\<close>

record ContentItem =
  item_id :: int
  title :: string
  content :: string
  excerpt :: "string option"
  category :: string
  image_url :: "string option"
  author :: string
  published :: bool
  created_at :: datetime
  updated_at :: datetime
  event_date :: "datetime option"
  tags :: "string option"

text \<open>
  An uploaded file part: \<open>filename\<close> and \<open>content_type\<close> are optional headers of the
  part, \<open>file_bytes\<close> is the content of its \<open>file\<close>.
\<close>

record UploadFile =
  filename :: "string option"
  content_type :: "string option"
  file_bytes :: string

text \<open>
  The persistent state. \<open>content_items\<close> lists the rows in rowid order, which is the
  order of insertion; \<open>uploads\<close> maps the name of each file in \<open>UPLOAD_DIR\<close> to its bytes.
\<close>

record state =
  content_items :: "ContentItem list"
  uploads :: "string \<rightharpoonup> string"

text \<open>
  What a handler raises: an \<open>HTTPException\<close> with its status code and detail, or an
  exception that no handler catches (the client gets a 500): the \<open>AttributeError\<close> of
  \<open>None.startswith\<close>, and the \<open>OverflowError\<close> of the SQLite driver when it is
  given an integer that does not fit its 64 bits as a query parameter.
\<close>

datatype error = HTTPException nat string | AttributeError | OverflowError

abbreviation ValidationError :: "string \<Rightarrow> error" where
  "ValidationError d \<equiv> HTTPException 400 d"

abbreviation NotFoundError :: error where
  "NotFoundError \<equiv> HTTPException 404 ''Content item not found''"

subsection \<open>Library functions\<close>

text \<open>\<open>str.startswith\<close>.\<close>

definition startswith :: "string \<Rightarrow> string \<Rightarrow> bool" where
  "startswith s pre = (take (length pre) s = pre)"

text \<open>\<open>s.replace('Z', '+00:00')\<close>: every occurrence is replaced, not only a trailing one.\<close>

definition replace_Z :: "string \<Rightarrow> string" where
  "replace_Z s = concat (map (\<lambda>c. if c = CHR ''Z'' then ''+00:00'' else [c]) s)"

text \<open>\<open>str.rfind\<close> for one character: the last index of \<open>c\<close>, or -1.\<close>

definition rfind :: "string \<Rightarrow> char \<Rightarrow> int" where
  "rfind p c =
     (if c \<in> set p then int (length p) - 1 - int (length (takeWhile (\<lambda>x. x \<noteq> c) (rev p)))
      else - 1)"

text \<open>
  \<open>os.path.splitext\<close> (POSIX): the extension starts at the last dot of the last path
  component, unless only dots precede it there.
\<close>

definition splitext :: "string \<Rightarrow> string \<times> string" where
  "splitext p =
     (let sepIndex = rfind p (CHR ''/'');
          dotIndex = rfind p (CHR ''.'')
      in if dotIndex > sepIndex \<and>
            (\<exists>k \<in> set [nat (sepIndex + 1) ..< nat dotIndex]. p ! k \<noteq> CHR ''.'')
         then (take (nat dotIndex) p, drop (nat dotIndex) p)
         else (p, []))"

text \<open>\<open>os.path.basename\<close> (POSIX): what follows the last slash.\<close>

definition basename :: "string \<Rightarrow> string" where
  "basename p = drop (nat (rfind p (CHR ''/'') + 1)) p"

text \<open>The \<open>repr\<close> of a list of plain strings, as an f-string prints it.\<close>

definition repr_list :: "string list \<Rightarrow> string" where
  "repr_list xs =
     ''['' @ concat (map (\<lambda>(i, x). (if i = 0 then [] else '', '') @ [CHR 0x27] @ x @ [CHR 0x27])
                      (zip [0 ..< length xs] xs)) @ '']''"

text \<open>Truthiness of an optional string: \<open>None\<close> and the empty string are false.\<close>

fun truthy :: "string option \<Rightarrow> bool" where
  "truthy None = False"
| "truthy (Some s) = (s \<noteq> [])"

subsection \<open>The database engine\<close>

text \<open>
  SQLite gives a row inserted without an id the largest rowid in the table plus one
  (1 in an empty table).
\<close>

definition next_rowid :: "ContentItem list \<Rightarrow> int" where
  "next_rowid rows = foldr max (map item_id rows) 0 + 1"

text \<open>
  The integers SQLite stores and the driver binds: the signed 64-bit range.
\<close>

definition int64_range :: "int \<Rightarrow> bool" where
  "int64_range i = (- (2 ^ 63) \<le> i \<and> i < 2 ^ 63)"

text \<open>\<open>query.filter(ContentItem.id == item_id).first()\<close>.\<close>

definition first_by_id :: "ContentItem list \<Rightarrow> int \<Rightarrow> ContentItem option" where
  "first_by_id rows i = find (\<lambda>r. item_id r = i) rows"




subsection \<open>The blob store\<close>

text \<open>
  \<open>save_upload_file\<close> (lines 106-115), for a part whose filename is \<open>fname\<close>: the bytes
  go to the file named by the fresh identifier and the extension of \<open>fname\<close>; the result is
  the reference and the directory after the write.
\<close>

definition save_upload_file ::
  "string \<Rightarrow> string \<Rightarrow> string \<Rightarrow> (string \<rightharpoonup> string) \<Rightarrow> string \<times> (string \<rightharpoonup> string)" where
  "save_upload_file fname bytes uuid4 fs =
     (let file_extension = snd (splitext fname);
          file_name = uuid4 @ file_extension
      in (''/uploads/'' @ file_name, fs(file_name \<mapsto> bytes)))"

text \<open>
  Lines 263-266 and 284-287: if the item has a (truthy) \<open>image_url\<close> and the file it
  names exists, the file is unlinked.
\<close>

definition unlink_image :: "string option \<Rightarrow> (string \<rightharpoonup> string) \<Rightarrow> (string \<rightharpoonup> string)" where
  "unlink_image url fs =
     (case url of
        None \<Rightarrow> fs
      | Some u \<Rightarrow>
          if u \<noteq> [] then
            (let file_path = basename u
             in if fs file_path \<noteq> None then fs(file_path := None) else fs)
          else fs)"

subsection \<open>The handlers\<close>

definition valid_categories :: "string list" where
  "valid_categories = [''blogs'', ''events'', ''news'']"

text \<open>
  \<open>create_content\<close> (lines 135-187). \<open>utcnow_created\<close> and \<open>utcnow_updated\<close> are the two
  readings of the clock that the column defaults of \<open>created_at\<close> and \<open>updated_at\<close> take
  when the row is inserted: each column has its own \<open>default=datetime.utcnow\<close>.
\<close>

definition create_content ::
  "(string \<Rightarrow> datetime option) \<Rightarrow> state \<Rightarrow>
   string \<Rightarrow> string \<Rightarrow> string \<Rightarrow> string \<Rightarrow> string option \<Rightarrow> bool \<Rightarrow> string option \<Rightarrow>
   string option \<Rightarrow> UploadFile option \<Rightarrow>
   string \<Rightarrow> datetime \<Rightarrow> datetime \<Rightarrow> (error + ContentItem) \<times> state" where
  "create_content fromisoformat db title' content' category' author' excerpt' published'
      event_date' tags' image' uuid4 utcnow_created utcnow_updated =
     (if category' \<notin> set valid_categories then
        (Inl (ValidationError (''Category must be one of: '' @ repr_list valid_categories)), db)
      else
        let saved =
          (case image' of
             None \<Rightarrow> Inr (None, uploads db)
           | Some img \<Rightarrow>
               if truthy (filename img) then
                 (case content_type img of
                    None \<Rightarrow> Inl AttributeError
                  | Some ct \<Rightarrow>
                      if \<not> startswith ct ''image/'' then
                        Inl (ValidationError ''File must be an image'')
                      else
                        (case save_upload_file (the (filename img)) (file_bytes img) uuid4
                                (uploads db) of
                           (url, fs) \<Rightarrow> Inr (Some url, fs)))
               else Inr (None, uploads db))
        in
        case saved of
          Inl e \<Rightarrow> (Inl e, db)
        | Inr (image_url', fs) \<Rightarrow>
            let parsed =
              (if truthy event_date' then
                 (case fromisoformat (replace_Z (the event_date')) of
                    None \<Rightarrow> Inl (ValidationError ''Invalid event_date format. Use ISO format.'')
                  | Some d \<Rightarrow> Inr (Some d))
               else Inr None)
            in
            (case parsed of
              Inl e \<Rightarrow> (Inl e, db\<lparr>uploads := fs\<rparr>)
            | Inr parsed_event_date \<Rightarrow>
                let db_item =
                  \<lparr>item_id = next_rowid (content_items db),
                   title = title',
                   content = content',
                   excerpt = excerpt',
                   category = category',
                   image_url = image_url',
                   author = author',
                   published = published',
                   created_at = utcnow_created,
                   updated_at = utcnow_updated,
                   event_date = parsed_event_date,
                   tags = tags'\<rparr>
                in (Inr db_item,
                    \<lparr>content_items = content_items db @ [db_item], uploads = fs\<rparr>)))"


text \<open>
  \<open>get_content_item\<close> (lines 210-216). \<open>item_id\<close> is a Python integer of any size.
  The query binds it as a parameter, and the driver raises \<open>OverflowError\<close> for an
  integer outside the signed 64-bit range; the handler does not catch it. The ids in the
  table are 64-bit integers, so such an id is never that of a row: the error is the
  answer to an id that matches no row and is out of range, the 404 the answer to one that
  matches no row and is in range.
\<close>

definition get_content_item :: "state \<Rightarrow> int \<Rightarrow> error + ContentItem" where
  "get_content_item db item_id' =
     (case first_by_id (content_items db) item_id' of
        None \<Rightarrow> if int64_range item_id' then Inl NotFoundError else Inl OverflowError
      | Some item \<Rightarrow> Inr item)"

text \<open>
  \<open>update_content\<close> (lines 218-274). The assignments of lines 237-248 change the object
  \<open>db_item\<close> that the session holds, not the table: the session was made with
  \<open>autoflush=False\<close>, so the row is written by \<open>db.commit()\<close> alone, and a handler that
  raises before it leaves the table as it was (\<open>get_db\<close> closes the session). The
  directory has no such protection: a file is written or unlinked at once.

  \<open>set_fields\<close> is lines 237-248.
\<close>

definition set_fields ::
  "ContentItem \<Rightarrow> string option \<Rightarrow> string option \<Rightarrow> string option \<Rightarrow> string option \<Rightarrow>
   bool option \<Rightarrow> string option \<Rightarrow> ContentItem" where
  "set_fields db_item title' content' excerpt' author' published' tags' =
     (let db_item = (case title' of None \<Rightarrow> db_item | Some v \<Rightarrow> db_item\<lparr>title := v\<rparr>);
          db_item = (case content' of None \<Rightarrow> db_item | Some v \<Rightarrow> db_item\<lparr>content := v\<rparr>);
          db_item = (case excerpt' of None \<Rightarrow> db_item | Some v \<Rightarrow> db_item\<lparr>excerpt := Some v\<rparr>);
          db_item = (case author' of None \<Rightarrow> db_item | Some v \<Rightarrow> db_item\<lparr>author := v\<rparr>);
          db_item = (case published' of None \<Rightarrow> db_item | Some v \<Rightarrow> db_item\<lparr>published := v\<rparr>);
          db_item = (case tags' of None \<Rightarrow> db_item | Some v \<Rightarrow> db_item\<lparr>tags := Some v\<rparr>)
      in db_item)"

text \<open>
  Lines 270-272: \<open>updated_at\<close> is set and the session commits, which writes \<open>db_item\<close>
  to the row of its primary key.
\<close>

definition commit_update ::
  "state \<Rightarrow> ContentItem \<Rightarrow> (string \<rightharpoonup> string) \<Rightarrow> datetime \<Rightarrow> (error + ContentItem) \<times> state" where
  "commit_update db db_item fs utcnow =
     (let db_item = db_item\<lparr>updated_at := utcnow\<rparr>
      in (Inr db_item,
          \<lparr>content_items =
             map (\<lambda>r. if item_id r = item_id db_item then db_item else r) (content_items db),
           uploads = fs\<rparr>))"

definition update_content ::
  "(string \<Rightarrow> datetime option) \<Rightarrow> state \<Rightarrow> int \<Rightarrow>
   string option \<Rightarrow> string option \<Rightarrow> string option \<Rightarrow> string option \<Rightarrow> bool option \<Rightarrow>
   string option \<Rightarrow> string option \<Rightarrow> UploadFile option \<Rightarrow>
   string \<Rightarrow> datetime \<Rightarrow> (error + ContentItem) \<times> state" where
  "update_content fromisoformat db item_id' title' content' excerpt' author' published'
      event_date' tags' image' uuid4 utcnow =
     (case first_by_id (content_items db) item_id' of
        None \<Rightarrow> (Inl NotFoundError, db)
      | Some stored \<Rightarrow>
          let db_item = set_fields stored title' content' excerpt' author' published' tags';
              dated =
                (case event_date' of
                   None \<Rightarrow> Inr db_item
                 | Some e \<Rightarrow>
                     (case fromisoformat (replace_Z e) of
                        None \<Rightarrow> Inl (ValidationError ''Invalid event_date format. Use ISO format.'')
                      | Some d \<Rightarrow> Inr (db_item\<lparr>event_date := Some d\<rparr>)))
          in
          (case dated of
            Inl e \<Rightarrow> (Inl e, db)
          | Inr db_item \<Rightarrow>
              (case image' of
                 None \<Rightarrow> commit_update db db_item (uploads db) utcnow
               | Some img \<Rightarrow>
                   if truthy (filename img) then
                     (case content_type img of
                        None \<Rightarrow> (Inl AttributeError, db)
                      | Some ct \<Rightarrow>
                          if \<not> startswith ct ''image/'' then
                            (Inl (ValidationError ''File must be an image''), db)
                          else
                            (case save_upload_file (the (filename img)) (file_bytes img) uuid4
                                    (unlink_image (image_url db_item) (uploads db)) of
                               (url, fs) \<Rightarrow>
                                 commit_update db (db_item\<lparr>image_url := Some url\<rparr>) fs utcnow))
                   else commit_update db db_item (uploads db) utcnow)))"

text \<open>\<open>delete_content\<close> (lines 276-292).\<close>

definition delete_content :: "state \<Rightarrow> int \<Rightarrow> (error + string) \<times> state" where
  "delete_content db item_id' =
     (case first_by_id (content_items db) item_id' of
        None \<Rightarrow> (Inl NotFoundError, db)
      | Some db_item \<Rightarrow>
          (Inr ''Content item deleted successfully'',
           \<lparr>content_items = filter (\<lambda>r. item_id r \<noteq> item_id db_item) (content_items db),
            uploads = unlink_image (image_url db_item) (uploads db)\<rparr>))"

subsection \<open>Reachable states\<close>

text \<open>
  The states the handlers can produce: the table starts empty (the directory may hold
  any files), and each request runs one handler. A request that raises still counts, with
  the state it leaves behind.
\<close>

inductive reachable :: "(string \<Rightarrow> datetime option) \<Rightarrow> state \<Rightarrow> bool"
  for fromisoformat :: "string \<Rightarrow> datetime option" where
  reachable_init: "content_items db = [] \<Longrightarrow> reachable fromisoformat db"
| reachable_create:
    "reachable fromisoformat db \<Longrightarrow>
     reachable fromisoformat
       (snd (create_content fromisoformat db t c cat a x p e tg img u n1 n2))"
| reachable_update:
    "reachable fromisoformat db \<Longrightarrow>
     reachable fromisoformat
       (snd (update_content fromisoformat db i t c x a p e tg img u now))"
| reachable_delete:
    "reachable fromisoformat db \<Longrightarrow> reachable fromisoformat (snd (delete_content db i))"

text \<open>
  What the handlers maintain: the primary key is unique, every category is one of the
  three valid ones, and an \<open>image_url\<close> that is set is not the empty string.
\<close>

definition well_formed :: "state \<Rightarrow> bool" where
  "well_formed db =
     (distinct (map item_id (content_items db)) \<and>
      (\<forall>r \<in> set (content_items db). category r \<in> set valid_categories \<and> image_url r \<noteq> Some []))"

subsection \<open>Concrete inputs\<close>

text \<open>
  The part of \<open>datetime.fromisoformat\<close> that the concrete calls below need: it parses
  the one timestamp used there (to its instant in microseconds) and rejects everything
  else, \<open>not-a-date\<close> among it, which Python rejects with \<open>ValueError\<close> too.
\<close>

definition iso_fixture :: "string \<Rightarrow> datetime option" where
  "iso_fixture s = (if s = ''2024-06-01T09:00:00+00:00'' then Some 1717232400000000 else None)"

text \<open>
  An image part, the empty store, and stores holding one or two items. \<open>db_img\<close> is
  the store after one \<open>create_content\<close> with an image, \<open>db2\<close> is \<open>db1\<close> after a second
  item was created.
\<close>

definition png :: UploadFile where
  "png = \<lparr>filename = Some ''photo.png'', content_type = Some ''image/png'', file_bytes = ''PNG''\<rparr>"

definition db0 :: state where
  "db0 = \<lparr>content_items = [], uploads = Map.empty\<rparr>"

definition item1 :: ContentItem where
  "item1 = \<lparr>item_id = 5, title = ''Q1 Update'', content = ''Numbers'', excerpt = None,
     category = ''news'', image_url = None, author = ''Jane'', published = False,
     created_at = 1000, updated_at = 1000, event_date = None, tags = None\<rparr>"

definition db1 :: state where
  "db1 = \<lparr>content_items = [item1], uploads = Map.empty\<rparr>"

definition item2 :: ContentItem where
  "item2 = \<lparr>item_id = 6, title = ''Roadmap'', content = ''Plans'', excerpt = Some ''Short'',
     category = ''blogs'', image_url = None, author = ''Ravi'', published = True,
     created_at = 3000, updated_at = 3004, event_date = None, tags = Some ''a,b''\<rparr>"

definition db2 :: state where
  "db2 = \<lparr>content_items = [item1, item2], uploads = Map.empty\<rparr>"

definition item3 :: ContentItem where
  "item3 = \<lparr>item_id = 6, title = ''Q1 Update'', content = ''...'', excerpt = None,
     category = ''news'', image_url = None, author = ''Jane'', published = False,
     created_at = 3000, updated_at = 3000, event_date = None, tags = None\<rparr>"

definition item_img :: ContentItem where
  "item_img = \<lparr>item_id = 1, title = ''Launch'', content = ''Party'', excerpt = None,
     category = ''events'', image_url = Some ''/uploads/u-1.png'', author = ''Jane'',
     published = False, created_at = 2000, updated_at = 2001,
     event_date = Some 1717232400000000, tags = None\<rparr>"

definition db_img :: state where
  "db_img = \<lparr>content_items = [item_img], uploads = [''u-1.png'' \<mapsto> ''PNG'']\<rparr>"

section \<open>Properties\<close>

subsection \<open>Lookups and fresh ids\<close>

lemma next_rowid_gt: "r \<in> set rows \<Longrightarrow> item_id r < next_rowid rows"
  unfolding next_rowid_def by (induction rows) auto

lemma next_rowid_fresh: "next_rowid rows \<notin> item_id ` set rows"
  using next_rowid_gt[of _ rows] by fastforce

lemma first_by_id_fresh: "first_by_id rows (next_rowid rows) = None"
  unfolding first_by_id_def using next_rowid_gt by (fastforce simp: find_None_iff)

lemma first_by_id_append_new:
  "first_by_id (rows @ [it]) (item_id it) = (case first_by_id rows (item_id it) of None \<Rightarrow> Some it | Some r \<Rightarrow> Some r)"
  unfolding first_by_id_def by (induction rows) auto

lemma first_by_id_Some: "first_by_id rows i = Some r \<Longrightarrow> r \<in> set rows \<and> item_id r = i"
  unfolding first_by_id_def by (induction rows) (auto split: if_splits)

lemma first_by_id_None: "first_by_id rows i = None \<longleftrightarrow> i \<notin> item_id ` set rows"
  unfolding first_by_id_def by (auto simp: find_None_iff)

lemma repr_valid_categories: "repr_list valid_categories = ''['blogs', 'events', 'news']''"
  by (simp add: repr_list_def valid_categories_def)

subsection \<open>The fields an update touches\<close>

lemma set_fields_frame [simp]:
  "item_id (set_fields s t c x a p tg) = item_id s"
  "category (set_fields s t c x a p tg) = category s"
  "image_url (set_fields s t c x a p tg) = image_url s"
  "created_at (set_fields s t c x a p tg) = created_at s"
  "updated_at (set_fields s t c x a p tg) = updated_at s"
  "event_date (set_fields s t c x a p tg) = event_date s"
  by (simp_all add: set_fields_def split: option.splits)

lemma set_fields_supplied [simp]:
  "title (set_fields s t c x a p tg) = (case t of None \<Rightarrow> title s | Some v \<Rightarrow> v)"
  "content (set_fields s t c x a p tg) = (case c of None \<Rightarrow> content s | Some v \<Rightarrow> v)"
  "excerpt (set_fields s t c x a p tg) = (case x of None \<Rightarrow> excerpt s | Some v \<Rightarrow> Some v)"
  "author (set_fields s t c x a p tg) = (case a of None \<Rightarrow> author s | Some v \<Rightarrow> v)"
  "published (set_fields s t c x a p tg) = (case p of None \<Rightarrow> published s | Some v \<Rightarrow> v)"
  "tags (set_fields s t c x a p tg) = (case tg of None \<Rightarrow> tags s | Some v \<Rightarrow> Some v)"
  by (simp_all add: set_fields_def split: option.splits)

lemma set_fields_none [simp]: "set_fields s None None None None None None = s"
  by (simp add: set_fields_def)

subsection \<open>What a create and an update leave behind\<close>

lemma create_content_result:
  assumes "create_content f db t c cat a x p e tg img u n1 n2 = (res, db')"
  shows "(content_items db' = content_items db \<and> (\<exists>err. res = Inl err)) \<or>
         (\<exists>it. res = Inr it \<and> content_items db' = content_items db @ [it] \<and>
            item_id it = next_rowid (content_items db) \<and> category it = cat \<and>
            cat \<in> set valid_categories \<and>
            (image_url it = None \<or> (\<exists>n. image_url it = Some (''/uploads/'' @ n))))"
  using assms
  by (auto simp: create_content_def save_upload_file_def Let_def
      split: option.splits sum.splits if_splits prod.splits)

lemma update_content_result:
  assumes "update_content f db i t c x a p e tg img u now = (res, db')"
  shows "(db' = db \<and> (\<exists>err. res = Inl err)) \<or>
         (\<exists>stored it'. first_by_id (content_items db) i = Some stored \<and> res = Inr it' \<and>
            content_items db' = map (\<lambda>r. if item_id r = i then it' else r) (content_items db) \<and>
            item_id it' = i \<and> category it' = category stored \<and>
            (image_url it' = image_url stored \<or> (\<exists>n. image_url it' = Some (''/uploads/'' @ n))))"
proof (cases "first_by_id (content_items db) i")
  case None
  with assms show ?thesis by (auto simp: update_content_def)
next
  case (Some stored)
  then have "item_id stored = i" by (simp add: first_by_id_Some)
  with assms Some show ?thesis
    by (auto simp: update_content_def commit_update_def save_upload_file_def Let_def
        split: option.splits sum.splits if_splits)
qed

lemma update_keeps_columns:
  assumes "distinct (map item_id (content_items db))"
  shows "map item_id (content_items (snd (update_content f db i t c x a p e tg img u now))) =
           map item_id (content_items db) \<and>
         map category (content_items (snd (update_content f db i t c x a p e tg img u now))) =
           map category (content_items db)"
proof -
  obtain res db' where r: "update_content f db i t c x a p e tg img u now = (res, db')"
    by (cases "update_content f db i t c x a p e tg img u now")
  from update_content_result[OF r] consider
    (failed) "db' = db"
  | (committed) stored it' where
      "first_by_id (content_items db) i = Some stored"
      "content_items db' = map (\<lambda>r. if item_id r = i then it' else r) (content_items db)"
      "item_id it' = i" "category it' = category stored"
    by blast
  then show ?thesis
  proof cases
    case failed
    with r show ?thesis by simp
  next
    case (committed stored it')
    note s = committed(1) and c = committed(2) and i = committed(3) and cat = committed(4)
    from s have mem: "stored \<in> set (content_items db)" "item_id stored = i"
      by (simp_all add: first_by_id_Some)
    have same: "r = stored" if "r \<in> set (content_items db)" "item_id r = i" for r
      using assms that mem by (auto simp: distinct_map dest: inj_onD)
    have "map item_id (content_items db') = map item_id (content_items db)"
      by (simp add: c i cong: map_cong)
    moreover have "map category (content_items db') = map category (content_items db)"
      using same by (auto simp: c cat)
    ultimately show ?thesis using r by simp
  qed
qed

subsection \<open>The invariant of the reachable states\<close>

lemma well_formed_create:
  assumes "well_formed db"
  shows "well_formed (snd (create_content f db t c cat a x p e tg img u n1 n2))"
proof -
  obtain res db' where r: "create_content f db t c cat a x p e tg img u n1 n2 = (res, db')"
    by (cases "create_content f db t c cat a x p e tg img u n1 n2")
  from create_content_result[OF r] assms next_rowid_fresh[of "content_items db"]
  have "well_formed db'" by (auto simp: well_formed_def)
  with r show ?thesis by simp
qed

lemma well_formed_update:
  assumes "well_formed db"
  shows "well_formed (snd (update_content f db i t c x a p e tg img u now))"
proof -
  obtain res db' where r: "update_content f db i t c x a p e tg img u now = (res, db')"
    by (cases "update_content f db i t c x a p e tg img u now")
  from assms have d: "distinct (map item_id (content_items db))" by (simp add: well_formed_def)
  from update_keeps_columns[OF d, of f i t c x a p e tg img u now] r
  have ids: "map item_id (content_items db') = map item_id (content_items db)" by simp
  from update_content_result[OF r] consider
    (failed) "db' = db"
  | (committed) stored it' where
      "first_by_id (content_items db) i = Some stored"
      "content_items db' = map (\<lambda>r. if item_id r = i then it' else r) (content_items db)"
      "category it' = category stored"
      "image_url it' = image_url stored \<or> (\<exists>n. image_url it' = Some (''/uploads/'' @ n))"
    by blast
  then have "well_formed db'"
  proof cases
    case failed
    with assms show ?thesis by simp
  next
    case (committed stored it')
    note s = committed(1) and c = committed(2) and cat = committed(3) and img = committed(4)
    from s have mem: "stored \<in> set (content_items db)" by (simp add: first_by_id_Some)
    with assms have "category it' \<in> set valid_categories \<and> image_url it' \<noteq> Some []"
      using cat img by (auto simp: well_formed_def)
    with assms d show ?thesis
      unfolding well_formed_def ids[symmetric] by (auto simp: c ids)
  qed
  with r show ?thesis by simp
qed

lemma well_formed_delete:
  assumes "well_formed db"
  shows "well_formed (snd (delete_content db i))"
  using assms by (auto simp: well_formed_def delete_content_def distinct_map_filter split: option.splits)

lemma reachable_well_formed: "reachable f db \<Longrightarrow> well_formed db"
proof (induction rule: reachable.induct)
  case (reachable_init db)
  then show ?case by (simp add: well_formed_def)
qed (simp_all add: well_formed_create well_formed_update well_formed_delete)

subsection \<open>Ordering of a listing\<close>





subsection \<open>References into the blob store\<close>

text \<open>
  The reference that \<open>save_upload_file\<close> returns resolves, through \<open>basename\<close>, to the
  file it wrote, as long as the drawn identifier has no slash (a UUID has none).
\<close>

lemma rfind_last: "c \<notin> set (drop (nat (rfind p c + 1)) p)"
proof (cases "c \<in> set p")
  case False
  then show ?thesis by (simp add: rfind_def)
next
  case True
  define t where "t = takeWhile (\<lambda>x. x \<noteq> c) (rev p)"
  have le: "length t \<le> length p"
    unfolding t_def using length_takeWhile_le[of "\<lambda>x. x \<noteq> c" "rev p"] by simp
  have "drop (length p - length t) p = rev (take (length t) (rev p))"
    using le by (simp add: take_rev)
  also have "take (length t) (rev p) = t"
    unfolding t_def by (simp add: takeWhile_eq_take[symmetric])
  finally have d: "drop (length p - length t) p = rev t" .
  have "c \<notin> set t" unfolding t_def by (auto dest: set_takeWhileD)
  moreover have "nat (rfind p c + 1) = length p - length t"
    using True le by (simp add: rfind_def t_def)
  ultimately show ?thesis by (simp add: d)
qed

lemma basename_of_reference:
  assumes "CHR ''/'' \<notin> set n"
  shows "basename (''/uploads/'' @ n) = n"
proof -
  have "takeWhile (\<lambda>x. x \<noteq> CHR ''/'') (rev n @ rev ''/uploads/'') = rev n"
    using assms by (subst takeWhile_append2) auto
  then have "rfind (''/uploads/'' @ n) (CHR ''/'') = 8"
    by (simp add: rfind_def)
  then show ?thesis by (simp add: basename_def)
qed

lemma splitext_no_sep: "CHR ''/'' \<notin> set (snd (splitext p))"
proof -
  have "CHR ''/'' \<notin> set (drop (nat d) p)" if "rfind p (CHR ''/'') < d" for d
  proof -
    from that have "nat (rfind p (CHR ''/'') + 1) \<le> nat d" by simp
    then have "set (drop (nat d) p) \<subseteq> set (drop (nat (rfind p (CHR ''/'') + 1)) p)"
      by (rule set_drop_subset_set_drop)
    with rfind_last[of "CHR ''/''" p] show ?thesis by blast
  qed
  then show ?thesis by (simp add: splitext_def Let_def)
qed

lemma save_upload_file_reference:
  assumes "CHR ''/'' \<notin> set uuid4"
  shows "snd (save_upload_file fname bytes uuid4 fs)
           (basename (fst (save_upload_file fname bytes uuid4 fs))) = Some bytes"
  using assms splitext_no_sep[of fname] basename_of_reference[of "uuid4 @ snd (splitext fname)"]
  by (simp add: save_upload_file_def Let_def)

subsection \<open>Unlinking an image\<close>

lemma unlink_image_gone:
  "u \<noteq> [] \<Longrightarrow> unlink_image (Some u) fs (basename u) = None"
  by (simp add: unlink_image_def Let_def)

lemma unlink_image_others:
  "(\<forall>u. url = Some u \<longrightarrow> n \<noteq> basename u) \<Longrightarrow> unlink_image url fs n = fs n"
  by (simp add: unlink_image_def Let_def split: option.splits)

subsection \<open>The concrete stores\<close>

lemma splitext_photo: "splitext ''photo.png'' = (''photo'', ''.png'')"
  by code_simp

lemma basename_u1: "basename ''/uploads/u-1.png'' = ''u-1.png''"
  by code_simp

lemma create_db_img:
  "create_content iso_fixture db0 ''Launch'' ''Party'' ''events'' ''Jane'' None False
     (Some ''2024-06-01T09:00:00Z'') None (Some png) ''u-1'' 2000 2001 = (Inr item_img, db_img)"
  by (simp add: create_content_def valid_categories_def png_def startswith_def
      save_upload_file_def splitext_photo iso_fixture_def replace_Z_def db0_def db_img_def
      item_img_def next_rowid_def Let_def)

lemma reachable_db_img: "reachable iso_fixture db_img"
proof -
  have "reachable iso_fixture db0" by (rule reachable_init) (simp add: db0_def)
  from reachable_create[OF this, of "''Launch''" "''Party''" "''events''" "''Jane''" None False
      "Some ''2024-06-01T09:00:00Z''" None "Some png" "''u-1''" 2000 2001]
  show ?thesis by (simp add: create_db_img)
qed

lemma create_item2:
  "create_content iso_fixture db1 ''Roadmap'' ''Plans'' ''blogs'' ''Ravi'' (Some ''Short'') True
     None (Some ''a,b'') None ''u-2'' 3000 3004 = (Inr item2, db2)"
  by (simp add: create_content_def valid_categories_def db1_def db2_def item1_def item2_def
      next_rowid_def Let_def)

lemma create_item3:
  "create_content iso_fixture db1 ''Q1 Update'' ''...'' ''news'' ''Jane'' None False
     None None None ''u-2'' 3000 3000 =
   (Inr item3, \<lparr>content_items = [item1, item3], uploads = Map.empty\<rparr>)"
  by (simp add: create_content_def valid_categories_def db1_def item1_def item3_def
      next_rowid_def Let_def)

section \<open>The claims\<close>

text \<open>
  Claim C1. For every stored item and every \<open>event_date\<close> string that does not parse,
  \<open>update_content\<close> fails with the validation error and leaves the whole state as it
  was: the row keeps every field, \<open>updated_at\<close> included, whatever other fields and
  image the same call supplied, and no file is written or removed.
\<close>

theorem update_unparsable_event_date:
  assumes "first_by_id (content_items db) i = Some stored"
      and "fromisoformat (replace_Z e) = None"
  shows "update_content fromisoformat db i t c x a p (Some e) tg img u now =
           (Inl (ValidationError ''Invalid event_date format. Use ISO format.''), db)"
  using assms by (simp add: update_content_def Let_def)

theorem update_unparsable_event_date_witness:
  "first_by_id (content_items db1) 5 = Some item1 \<and>
   iso_fixture (replace_Z ''not-a-date'') = None \<and>
   update_content iso_fixture db1 5 (Some ''New title'') None None None (Some True)
       (Some ''not-a-date'') (Some ''a,b'') (Some png) ''u-1'' 2000 =
     (Inl (ValidationError ''Invalid event_date format. Use ISO format.''), db1)"
proof -
  have h1: "first_by_id (content_items db1) 5 = Some item1"
    by (simp add: db1_def item1_def first_by_id_def)
  have h2: "iso_fixture (replace_Z ''not-a-date'') = None"
    by (simp add: iso_fixture_def replace_Z_def)
  from update_unparsable_event_date [where fromisoformat = iso_fixture and e = "''not-a-date''", OF h1 h2] h1 h2
  show ?thesis by blast
qed

text \<open>
  Claim C2, at a concrete call. \<open>create_content\<close> with an image and the
  \<open>event_date\<close> \<open>not-a-date\<close> fails with the validation error and inserts no row, but
  the image was saved before the date was parsed (line 160 before lines 164-168): the
  file \<open>u-1.png\<close>, absent before the call, is in the directory after it.
  \<open>update_content\<close> parses the date first (lines 251-255 before 258-268).
\<close>

theorem create_bad_date_orphans_blob:
  "create_content iso_fixture db1 ''Launch'' ''Party'' ''events'' ''Jane'' None False
       (Some ''not-a-date'') None (Some png) ''u-1'' 2000 2001 =
     (Inl (ValidationError ''Invalid event_date format. Use ISO format.''),
      db1\<lparr>uploads := (uploads db1)(''u-1.png'' \<mapsto> ''PNG'')\<rparr>) \<and>
   uploads db1 ''u-1.png'' = None"
  by (simp add: create_content_def valid_categories_def png_def startswith_def
      save_upload_file_def splitext_photo iso_fixture_def replace_Z_def db1_def Let_def)

text \<open>
  Claim C3. \<open>create_content\<close> with a category outside blogs, events and news fails
  with the validation error whose detail lists the three valid categories, and leaves the
  whole state as it was: no row is inserted and no file is written, whatever else the
  call supplied.
\<close>

theorem create_invalid_category:
  assumes "category' \<notin> {''blogs'', ''events'', ''news''}"
  shows "create_content fromisoformat db t c category' a x p e tg img u n1 n2 =
           (Inl (ValidationError ''Category must be one of: ['blogs', 'events', 'news']''), db)"
  using assms by (simp add: create_content_def repr_valid_categories) (simp add: valid_categories_def)

theorem create_invalid_category_witness:
  "''blog'' \<notin> {''blogs'', ''events'', ''news''} \<and>
   create_content iso_fixture db1 ''T'' ''C'' ''blog'' ''Jane'' None True
       (Some ''2024-06-01T09:00:00Z'') None (Some png) ''u-1'' 2000 2001 =
     (Inl (ValidationError ''Category must be one of: ['blogs', 'events', 'news']''), db1)"
proof -
  have h: "''blog'' \<notin> {''blogs'', ''events'', ''news''}" by simp
  from create_invalid_category [OF h] h show ?thesis by blast
qed

text \<open>
  Claim C4 as stated fails: the two timestamps of a new row come from two readings of
  the clock, one for each column default, and the second reading may be later than the
  first. Here the readings are 2000 and 2003.
\<close>

theorem create_defaults_counterexample:
  "(case fst (create_content iso_fixture db1 ''Q1 Update'' ''...'' ''news'' ''Jane'' None False
                None None None ''u-1'' 2000 2003) of
      Inl e \<Rightarrow> False
    | Inr it \<Rightarrow> created_at it \<noteq> updated_at it)"
  by (simp add: create_content_def valid_categories_def Let_def)

text \<open>
  Claim C4, amended. For every successful \<open>create_content\<close> with only the four
  required fields (no excerpt, \<open>published\<close> at its default, no event date, no tags, no
  image), the returned item has \<open>published\<close> false, no \<open>image_url\<close>, an id that no
  row had before and under which the item is now found, \<open>created_at\<close> the reading of the
  clock taken for that column and \<open>updated_at\<close> the reading taken for that one: the two
  are equal exactly when the two readings are.
\<close>

theorem create_defaults:
  assumes "create_content fromisoformat db t c cat a None False None None None u n1 n2 = (Inr it, db')"
  shows "published it = False \<and> image_url it = None \<and>
         item_id it \<notin> item_id ` set (content_items db) \<and>
         get_content_item db' (item_id it) = Inr it \<and>
         created_at it = n1 \<and> updated_at it = n2 \<and>
         (created_at it = updated_at it \<longleftrightarrow> n1 = n2)"
proof -
  from assms have it: "it = \<lparr>item_id = next_rowid (content_items db), title = t, content = c,
      excerpt = None, category = cat, image_url = None, author = a, published = False,
      created_at = n1, updated_at = n2, event_date = None, tags = None\<rparr>"
    and db': "content_items db' = content_items db @ [it]"
    by (auto simp: create_content_def Let_def split: if_splits)
  have fresh: "item_id it \<notin> item_id ` set (content_items db)"
    using next_rowid_fresh[of "content_items db"] by (simp add: it)
  from fresh have "first_by_id (content_items db) (item_id it) = None"
    by (simp add: first_by_id_None)
  then have "first_by_id (content_items db') (item_id it) = Some it"
    by (simp add: db' first_by_id_append_new)
  then have "get_content_item db' (item_id it) = Inr it"
    by (simp add: get_content_item_def)
  with fresh show ?thesis by (simp add: it)
qed

theorem create_defaults_witness:
  "create_content iso_fixture db1 ''Q1 Update'' ''...'' ''news'' ''Jane'' None False
     None None None ''u-2'' 3000 3000 =
     (Inr item3, \<lparr>content_items = [item1, item3], uploads = Map.empty\<rparr>) \<and>
   published item3 = False \<and> image_url item3 = None \<and>
   item_id item3 \<notin> item_id ` set (content_items db1) \<and>
   created_at item3 = updated_at item3"
  using create_defaults[OF create_item3] create_item3 by simp




text \<open>
  Claim C6. For every stored item: an update with no field set returns the item with
  only \<open>updated_at\<close> refreshed; an update with only \<open>published=true\<close> changes
  \<open>published\<close> and \<open>updated_at\<close> alone; and every successful update leaves the id, the
  category and \<open>created_at\<close> alone, sets each supplied field to the supplied value and
  keeps each field that was not supplied, sets \<open>updated_at\<close>, touches \<open>image_url\<close> and
  the directory only when an image is supplied, and writes no row but the item's own.
\<close>

theorem partial_update_frame:
  assumes "first_by_id (content_items db) i = Some stored"
  shows
    "update_content f db i None None None None None None None None u now =
       (Inr (stored\<lparr>updated_at := now\<rparr>),
        db\<lparr>content_items :=
             map (\<lambda>r. if item_id r = i then stored\<lparr>updated_at := now\<rparr> else r)
               (content_items db)\<rparr>) \<and>
     update_content f db i None None None None (Some True) None None None u now =
       (Inr (stored\<lparr>published := True, updated_at := now\<rparr>),
        db\<lparr>content_items :=
             map (\<lambda>r. if item_id r = i then stored\<lparr>published := True, updated_at := now\<rparr> else r)
               (content_items db)\<rparr>) \<and>
     (update_content f db i t c x a p e tg img u now = (Inr it', db') \<longrightarrow>
        item_id it' = item_id stored \<and> category it' = category stored \<and>
        created_at it' = created_at stored \<and> updated_at it' = now \<and>
        title it' = (case t of None \<Rightarrow> title stored | Some v \<Rightarrow> v) \<and>
        content it' = (case c of None \<Rightarrow> content stored | Some v \<Rightarrow> v) \<and>
        excerpt it' = (case x of None \<Rightarrow> excerpt stored | Some v \<Rightarrow> Some v) \<and>
        author it' = (case a of None \<Rightarrow> author stored | Some v \<Rightarrow> v) \<and>
        published it' = (case p of None \<Rightarrow> published stored | Some v \<Rightarrow> v) \<and>
        tags it' = (case tg of None \<Rightarrow> tags stored | Some v \<Rightarrow> Some v) \<and>
        event_date it' = (case e of None \<Rightarrow> event_date stored | Some v \<Rightarrow> f (replace_Z v)) \<and>
        ((case img of None \<Rightarrow> True | Some im \<Rightarrow> \<not> truthy (filename im)) \<longrightarrow>
           image_url it' = image_url stored \<and> uploads db' = uploads db) \<and>
        content_items db' = map (\<lambda>r. if item_id r = i then it' else r) (content_items db))"
proof (intro conjI impI)
  from assms have i: "item_id stored = i" by (simp add: first_by_id_Some)
  show "update_content f db i None None None None None None None None u now =
       (Inr (stored\<lparr>updated_at := now\<rparr>),
        db\<lparr>content_items :=
             map (\<lambda>r. if item_id r = i then stored\<lparr>updated_at := now\<rparr> else r)
               (content_items db)\<rparr>)"
    using assms i by (simp add: update_content_def commit_update_def Let_def)
  show "update_content f db i None None None None (Some True) None None None u now =
       (Inr (stored\<lparr>published := True, updated_at := now\<rparr>),
        db\<lparr>content_items :=
             map (\<lambda>r. if item_id r = i then stored\<lparr>published := True, updated_at := now\<rparr> else r)
               (content_items db)\<rparr>)"
    using assms i by (simp add: update_content_def commit_update_def set_fields_def Let_def)
  assume r: "update_content f db i t c x a p e tg img u now = (Inr it', db')"
  define s where "s = set_fields stored t c x a p tg"
  define d where "d = (case e of None \<Rightarrow> s | Some v \<Rightarrow> s\<lparr>event_date := f (replace_Z v)\<rparr>)"
  have shape: "(it' = d\<lparr>updated_at := now\<rparr> \<and> uploads db' = uploads db \<or>
         (\<exists>n. it' = d\<lparr>image_url := Some n, updated_at := now\<rparr> \<and>
            \<not> (case img of None \<Rightarrow> True | Some im \<Rightarrow> \<not> truthy (filename im)))) \<and>
        content_items db' = map (\<lambda>r. if item_id r = i then it' else r) (content_items db)"
    using r assms i unfolding s_def d_def
    by (auto simp: update_content_def commit_update_def Let_def
        split: option.splits sum.splits if_splits prod.splits)
  have dsel: "item_id d = item_id stored" "category d = category stored"
    "created_at d = created_at stored" "image_url d = image_url stored"
    "title d = (case t of None \<Rightarrow> title stored | Some v \<Rightarrow> v)"
    "content d = (case c of None \<Rightarrow> content stored | Some v \<Rightarrow> v)"
    "excerpt d = (case x of None \<Rightarrow> excerpt stored | Some v \<Rightarrow> Some v)"
    "author d = (case a of None \<Rightarrow> author stored | Some v \<Rightarrow> v)"
    "published d = (case p of None \<Rightarrow> published stored | Some v \<Rightarrow> v)"
    "tags d = (case tg of None \<Rightarrow> tags stored | Some v \<Rightarrow> Some v)"
    "event_date d = (case e of None \<Rightarrow> event_date stored | Some v \<Rightarrow> f (replace_Z v))"
    by (simp_all add: d_def s_def split: option.splits)
  from shape show "item_id it' = item_id stored" by (auto simp: dsel)
  from shape show "category it' = category stored" by (auto simp: dsel)
  from shape show "created_at it' = created_at stored" by (auto simp: dsel)
  from shape show "updated_at it' = now" by auto
  from shape show "title it' = (case t of None \<Rightarrow> title stored | Some v \<Rightarrow> v)"
    by (auto simp: dsel)
  from shape show "content it' = (case c of None \<Rightarrow> content stored | Some v \<Rightarrow> v)"
    by (auto simp: dsel)
  from shape show "excerpt it' = (case x of None \<Rightarrow> excerpt stored | Some v \<Rightarrow> Some v)"
    by (auto simp: dsel)
  from shape show "author it' = (case a of None \<Rightarrow> author stored | Some v \<Rightarrow> v)"
    by (auto simp: dsel)
  from shape show "published it' = (case p of None \<Rightarrow> published stored | Some v \<Rightarrow> v)"
    by (auto simp: dsel)
  from shape show "tags it' = (case tg of None \<Rightarrow> tags stored | Some v \<Rightarrow> Some v)"
    by (auto simp: dsel)
  from shape show "event_date it' = (case e of None \<Rightarrow> event_date stored | Some v \<Rightarrow> f (replace_Z v))"
    by (auto simp: dsel)
  from shape show "image_url it' = image_url stored"
    if "case img of None \<Rightarrow> True | Some im \<Rightarrow> \<not> truthy (filename im)"
    using that by (auto simp: dsel)
  from shape show "uploads db' = uploads db"
    if "case img of None \<Rightarrow> True | Some im \<Rightarrow> \<not> truthy (filename im)"
    using that by auto
  from shape show "content_items db' = map (\<lambda>r. if item_id r = i then it' else r) (content_items db)"
    by simp
qed

theorem partial_update_frame_witness:
  "first_by_id (content_items db1) 5 = Some item1 \<and> published item1 = False \<and>
   update_content iso_fixture db1 5 None None None None None None None None ''u-2'' 4000 =
     (Inr (item1\<lparr>updated_at := 4000\<rparr>),
      db1\<lparr>content_items := [item1\<lparr>updated_at := 4000\<rparr>]\<rparr>) \<and>
   update_content iso_fixture db1 5 None None None None (Some True) None None None ''u-2'' 4000 =
     (Inr (item1\<lparr>published := True, updated_at := 4000\<rparr>),
      db1\<lparr>content_items := [item1\<lparr>published := True, updated_at := 4000\<rparr>]\<rparr>)"
proof -
  have h: "first_by_id (content_items db1) 5 = Some item1"
    by (simp add: db1_def item1_def first_by_id_def)
  have c: "content_items db1 = [item1]" "item_id item1 = 5" "published item1 = False"
    by (simp_all add: db1_def item1_def)
  from partial_update_frame[OF h, of iso_fixture "''u-2''" 4000] h c show ?thesis by simp
qed

text \<open>
  Claim C7 as stated fails for an id that no row has but that is too large for the
  database: \<open>get_content_item\<close> of 9223372036854775808 (2 to the 63) does not answer
  with the not-found error, the driver's \<open>OverflowError\<close> escapes the handler.
\<close>

theorem get_absent_id_counterexample:
  "9223372036854775808 \<notin> item_id ` set (content_items db1) \<and>
   get_content_item db1 9223372036854775808 = Inl OverflowError \<and>
   get_content_item db1 9223372036854775808 \<noteq> Inl NotFoundError"
  by (simp add: get_content_item_def first_by_id_def int64_range_def db1_def item1_def)

text \<open>
  Claim C7, amended. The item that \<open>create_content\<close> returns is what
  \<open>get_content_item\<close> then returns for its id, equal in every field;
  \<open>get_content_item\<close> of an id in the signed 64-bit range that no row has fails with
  the not-found error.
\<close>

theorem get_after_create:
  "(create_content fromisoformat db t c cat a x p e tg img u n1 n2 = (Inr it, db')
      \<longrightarrow> get_content_item db' (item_id it) = Inr it) \<and>
   (i \<notin> item_id ` set (content_items db) \<and> - (2 ^ 63) \<le> i \<and> i < 2 ^ 63
      \<longrightarrow> get_content_item db i = Inl NotFoundError)"
proof (intro conjI impI)
  assume "create_content fromisoformat db t c cat a x p e tg img u n1 n2 = (Inr it, db')"
  then have "item_id it = next_rowid (content_items db) \<and> content_items db' = content_items db @ [it]"
    by (auto simp: create_content_def Let_def split: if_splits sum.splits option.splits prod.splits)
  then show "get_content_item db' (item_id it) = Inr it"
    using first_by_id_append_new[of "content_items db" it] first_by_id_fresh[of "content_items db"]
    by (simp add: get_content_item_def)
next
  assume a: "i \<notin> item_id ` set (content_items db) \<and> - (2 ^ 63) \<le> i \<and> i < 2 ^ 63"
  then have "first_by_id (content_items db) i = None"
    by (simp add: first_by_id_None)
  with a show "get_content_item db i = Inl NotFoundError"
    by (simp add: get_content_item_def int64_range_def)
qed

theorem get_after_create_witness:
  "create_content iso_fixture db1 ''Roadmap'' ''Plans'' ''blogs'' ''Ravi'' (Some ''Short'') True
     None (Some ''a,b'') None ''u-2'' 3000 3004 = (Inr item2, db2) \<and>
   get_content_item db2 (item_id item2) = Inr item2 \<and>
   7 \<notin> item_id ` set (content_items db1) \<and> - (2 ^ 63) \<le> (7::int) \<and> (7::int) < 2 ^ 63 \<and>
   get_content_item db1 7 = Inl NotFoundError"
proof -
  have h: "7 \<notin> item_id ` set (content_items db1) \<and> - (2 ^ 63) \<le> (7::int) \<and> (7::int) < 2 ^ 63"
    by (simp add: db1_def item1_def)
  from get_after_create[where fromisoformat = iso_fixture and db = db1 and it = item2
      and db' = db2 and i = 7 and t = "''Roadmap''" and c = "''Plans''" and cat = "''blogs''"
      and a = "''Ravi''" and x = "Some ''Short''" and p = True and e = None
      and tg = "Some ''a,b''" and img = None and u = "''u-2''" and ?n1.0 = 3000 and ?n2.0 = 3004]
    create_item2 h
  show ?thesis by blast
qed

text \<open>
  Claim C8. In every reachable state each stored item has its category among blogs,
  events and news, and no \<open>update_content\<close> call, whatever its arguments, changes the id
  or the category of any row.
\<close>

theorem category_fixed:
  assumes "reachable f db"
  shows "(\<forall>r \<in> set (content_items db). category r \<in> {''blogs'', ''events'', ''news''}) \<and>
         map item_id (content_items (snd (update_content f db i t c x a p e tg img u now))) =
           map item_id (content_items db) \<and>
         map category (content_items (snd (update_content f db i t c x a p e tg img u now))) =
           map category (content_items db)"
proof -
  from assms have wf: "well_formed db" by (rule reachable_well_formed)
  then have "\<forall>r \<in> set (content_items db). category r \<in> {''blogs'', ''events'', ''news''}"
    by (simp add: well_formed_def valid_categories_def)
  moreover from wf have "distinct (map item_id (content_items db))"
    by (simp add: well_formed_def)
  ultimately show ?thesis using update_keeps_columns by blast
qed

theorem category_fixed_witness:
  "reachable iso_fixture db_img \<and> content_items db_img = [item_img] \<and>
   category item_img \<in> {''blogs'', ''events'', ''news''} \<and>
   map category (content_items (snd (update_content iso_fixture db_img 1 (Some ''Moved'') None
       None None (Some True) None None None ''u-2'' 4000))) = [''events'']"
proof -
  have c: "content_items db_img = [item_img]" "category item_img = ''events''"
    by (simp_all add: db_img_def item_img_def)
  from category_fixed[OF reachable_db_img, of 1 "Some ''Moved''" None None None "Some True" None
      None None "''u-2''" 4000] reachable_db_img c
  show ?thesis by simp
qed

text \<open>
  Claim C9. In every reachable state, \<open>delete_content\<close> of a stored item succeeds
  and removes the row; if the item has an \<open>image_url\<close>, the file it names is not in the
  directory afterwards (whether or not it was there before), and no other file is
  touched; a second \<open>delete_content\<close> of the same id fails with the not-found error and
  changes nothing.
\<close>

theorem delete_removes_entity_and_blob:
  assumes "reachable f db" and "first_by_id (content_items db) i = Some it"
  shows "fst (delete_content db i) = Inr ''Content item deleted successfully'' \<and>
         content_items (snd (delete_content db i)) =
           filter (\<lambda>r. item_id r \<noteq> i) (content_items db) \<and>
         (\<forall>u. image_url it = Some u \<longrightarrow> uploads (snd (delete_content db i)) (basename u) = None) \<and>
         (\<forall>n. (\<forall>u. image_url it = Some u \<longrightarrow> n \<noteq> basename u) \<longrightarrow>
              uploads (snd (delete_content db i)) n = uploads db n) \<and>
         delete_content (snd (delete_content db i)) i =
           (Inl NotFoundError, snd (delete_content db i))"
proof -
  from assms(2) have mem: "it \<in> set (content_items db)" and i: "item_id it = i"
    by (simp_all add: first_by_id_Some)
  from assms(1) have "well_formed db" by (rule reachable_well_formed)
  with mem have nonempty: "image_url it \<noteq> Some []" by (simp add: well_formed_def)
  have d: "delete_content db i =
      (Inr ''Content item deleted successfully'',
       \<lparr>content_items = filter (\<lambda>r. item_id r \<noteq> i) (content_items db),
        uploads = unlink_image (image_url it) (uploads db)\<rparr>)"
    using assms(2) i by (simp add: delete_content_def)
  have gone: "first_by_id (filter (\<lambda>r. item_id r \<noteq> i) (content_items db)) i = None"
    by (auto simp: first_by_id_None)
  have "\<forall>u. image_url it = Some u \<longrightarrow> unlink_image (image_url it) (uploads db) (basename u) = None"
    using nonempty by (auto simp: unlink_image_gone)
  moreover have "\<forall>n. (\<forall>u. image_url it = Some u \<longrightarrow> n \<noteq> basename u) \<longrightarrow>
      unlink_image (image_url it) (uploads db) n = uploads db n"
    by (simp add: unlink_image_others)
  moreover have "delete_content \<lparr>content_items = filter (\<lambda>r. item_id r \<noteq> i) (content_items db),
        uploads = unlink_image (image_url it) (uploads db)\<rparr> i =
      (Inl NotFoundError, \<lparr>content_items = filter (\<lambda>r. item_id r \<noteq> i) (content_items db),
        uploads = unlink_image (image_url it) (uploads db)\<rparr>)"
    using gone by (simp add: delete_content_def)
  ultimately show ?thesis by (simp add: d)
qed

theorem delete_removes_entity_and_blob_witness:
  "reachable iso_fixture db_img \<and> first_by_id (content_items db_img) 1 = Some item_img \<and>
   image_url item_img = Some ''/uploads/u-1.png'' \<and>
   uploads db_img ''u-1.png'' = Some ''PNG'' \<and>
   fst (delete_content db_img 1) = Inr ''Content item deleted successfully'' \<and>
   content_items (snd (delete_content db_img 1)) = [] \<and>
   uploads (snd (delete_content db_img 1)) ''u-1.png'' = None \<and>
   delete_content (snd (delete_content db_img 1)) 1 =
     (Inl NotFoundError, snd (delete_content db_img 1))"
proof -
  have h: "first_by_id (content_items db_img) 1 = Some item_img"
    by (simp add: db_img_def item_img_def first_by_id_def)
  have c: "image_url item_img = Some ''/uploads/u-1.png''" "uploads db_img ''u-1.png'' = Some ''PNG''"
    "content_items db_img = [item_img]" "item_id item_img = 1"
    by (simp_all add: db_img_def item_img_def)
  from delete_removes_entity_and_blob[OF reachable_db_img h] reachable_db_img h c basename_u1
  show ?thesis by simp
qed


end
